theory Spec2Isabelle
  imports Complex_Main
begin

section \<open>The payment event pipeline of the merchant dashboard\<close>

text \<open>
  The development embeds the two edge functions of the repository,
  \<^verbatim>\<open>create-payment-stripe/index.ts\<close> and \<^verbatim>\<open>stripe-webhook/index.ts\<close>, together with the
  tables of the SQL migration they read and write. Statuses, event types and payment methods
  are strings, as in the source. A JavaScript \<^verbatim>\<open>number\<close> holding a monetary amount is a
  rational; the handlers copy and compare such amounts, and the one arithmetic expression
  on an amount, \<^verbatim>\<open>Math.round(amount * 100)\<close>, is a parameter of the model.
\<close>

subsection \<open>Provider status mapping (create-payment-stripe, lines 112-124)\<close>

definition transactionStatus :: "string \<Rightarrow> string" where
  "transactionStatus pi_status =
     (if pi_status = ''succeeded'' then ''paid''
      else if pi_status = ''processing'' then ''processing''
      else if pi_status = ''requires_payment_method'' \<or> pi_status = ''requires_confirmation''
        then ''pending''
      else if pi_status = ''canceled'' then ''cancelled''
      else if pi_status = ''payment_failed'' then ''failed''
      else ''pending'')"

subsection \<open>Tables\<close>

text \<open>
  The row types carry the columns the handlers read and write, and for \<open>transactions\<close>,
  \<open>wallets\<close> and \<open>fees\<close> the columns of the migration that the properties below speak about.
  \<open>psp_configurations\<close>, \<open>activity_logs\<close> and \<open>psp_transaction_logs\<close> are used by the
  handlers; the migration under \<^verbatim>\<open>src\<close> does not declare them, so their columns are the
  ones the handlers name. A timestamp is a natural number, a row id a string, a nullable
  column an \<open>option\<close>.
\<close>

record psp_configuration =
  psp_name :: string
  api_key_secret :: "string option"
  webhook_secret :: "string option"
  is_active :: bool

text \<open>
  A provider object as the handlers use it: a PaymentIntent is read through \<open>id\<close>, \<open>status\<close>
  and \<open>client_secret\<close>, a Charge or Dispute through \<open>payment_intent\<close>.
\<close>

record stripe_object =
  obj_id :: string
  obj_status :: string
  obj_client_secret :: "string option"
  obj_payment_intent :: string

record transaction =
  tx_id :: string
  user_id :: string
  amount :: rat
  payment_method :: string
  payment_gateway :: string
  gateway_transaction_id :: string
  gateway_response :: "stripe_object option"
  status :: string
  customer_name :: string
  customer_email :: string
  customer_document :: string
  description :: string
  settled_at :: "nat option"
  fee_amount :: rat
  net_amount :: "rat option"
  completed_at :: "nat option"
  refunded_at :: "nat option"

record wallet =
  wallet_user_id :: string
  balance :: rat
  pending_balance :: rat
  blocked_balance :: rat

record fee =
  fee_user_id :: string
  fee_type :: string
  fee_row_amount :: rat

record activity_log =
  action :: string
  resource_type :: string
  details_event_type :: string
  details_event_id :: string

record psp_transaction_log =
  log_transaction_id :: string
  log_psp_name :: string
  log_status_code :: nat
  log_processing_time_ms :: nat

record store =
  psp_configurations :: "psp_configuration list"
  transactions :: "transaction list"
  wallets :: "wallet list"
  fees :: "fee list"
  activity_logs :: "activity_log list"
  psp_transaction_logs :: "psp_transaction_log list"

text \<open>
  The CHECK constraints of the \<open>transactions\<close> table (migration, lines 171-193) on the
  columns modelled here: \<open>amount > 0\<close>, the six permitted statuses and the five permitted
  payment methods.
\<close>

definition transactions_check :: "transaction \<Rightarrow> bool" where
  "transactions_check t =
     (amount t > 0 \<and>
      status t \<in> set [''pending'', ''processing'', ''completed'', ''failed'', ''refunded'',
                       ''cancelled''] \<and>
      payment_method t \<in> set [''credit_card'', ''debit_card'', ''pix'', ''boleto'', ''wallet''])"

text \<open>
  \<^verbatim>\<open>.update(patch).eq('gateway_transaction_id', ref)\<close>: the patch is applied to every row whose
  \<open>gateway_transaction_id\<close> equals \<open>ref\<close>. The statement fails as a whole, and changes
  nothing, when a patched row violates the table's row constraint \<open>chk\<close>; the first
  component of the result is the \<^verbatim>\<open>error\<close> the client returns. The constraint is a
  parameter: the handlers and the dashboard use a status vocabulary (\<open>paid\<close>, \<open>chargeback\<close>)
  that \<open>transactions_check\<close> does not admit, so results are stated for every constraint.
\<close>

definition matching :: "string \<Rightarrow> transaction list \<Rightarrow> transaction list" where
  "matching ref rows = filter (\<lambda>t. gateway_transaction_id t = ref) rows"

definition update_transactions ::
  "(transaction \<Rightarrow> bool) \<Rightarrow> (transaction \<Rightarrow> transaction) \<Rightarrow> string \<Rightarrow> transaction list
     \<Rightarrow> bool \<times> transaction list" where
  "update_transactions chk patch ref rows =
     (if list_all chk (map patch (matching ref rows))
      then (False, map (\<lambda>t. if gateway_transaction_id t = ref then patch t else t) rows)
      else (True, rows))"

subsection \<open>The stripe-webhook handler\<close>

record webhook_request =
  req_method :: string
  stripe_signature :: "string option"
  req_body :: string

record stripe_event =
  ev_id :: string
  ev_type :: string
  ev_object :: stripe_object

text \<open>
  The two ways the handler obtains an event are external: \<open>constructEvent\<close> of the Stripe
  SDK (\<open>None\<close> when it throws) and \<^verbatim>\<open>JSON.parse\<close> followed by the reads of \<open>event.type\<close> and
  \<open>event.data.object\<close> (\<open>Inl msg\<close> when one of them throws an error with message \<open>msg\<close>).
\<close>

record webhook_env =
  constructEvent :: "string \<Rightarrow> string \<Rightarrow> string \<Rightarrow> stripe_event option"
  json_parse :: "string \<Rightarrow> string + stripe_event"

text \<open>The JSON body of a successful create-payment response (lines 162-169).\<close>

record payment_created =
  transaction_id :: string
  stripe_payment_intent_id :: string
  stripe_client_secret :: "string option"
  created_status :: string
  created_amount :: rat
  created_payment_method :: string

datatype response_body = No_body | Received | Error_message string | Created payment_created

record response =
  resp_status :: nat
  resp_body :: response_body

text \<open>JavaScript truthiness of a nullable string: \<open>null\<close> and the empty string are falsy.\<close>

definition truthy :: "string option \<Rightarrow> bool" where
  "truthy v = (case v of None \<Rightarrow> False | Some s \<Rightarrow> s \<noteq> [])"

text \<open>\<^verbatim>\<open>.single()\<close>: the row when exactly one row is selected, otherwise no data.\<close>

definition single_row :: "'a list \<Rightarrow> 'a option" where
  "single_row rows = (case rows of [r] \<Rightarrow> Some r | _ \<Rightarrow> None)"

definition stripe_config :: "store \<Rightarrow> psp_configuration option" where
  "stripe_config st = single_row (filter (\<lambda>c. psp_name c = ''stripe'') (psp_configurations st))"

text \<open>The \<^verbatim>\<open>catch\<close> block (lines 190-203): status 500 with the error's message.\<close>

definition internal_error :: "string \<Rightarrow> response" where
  "internal_error msg =
     \<lparr>resp_status = 500,
      resp_body = Error_message (if msg = [] then ''Erro ao processar webhook'' else msg)\<rparr>"

text \<open>
  Lines 39-61: the signature is verified only when both the webhook secret and the
  signature header are truthy; otherwise the body is parsed as the event, unverified.
\<close>

definition receive_event ::
  "webhook_env \<Rightarrow> psp_configuration \<Rightarrow> webhook_request \<Rightarrow> response + stripe_event" where
  "receive_event env cfg req =
     (if truthy (webhook_secret cfg) \<and> truthy (stripe_signature req) then
        (case constructEvent env (req_body req) (the (stripe_signature req))
                (the (webhook_secret cfg)) of
           None \<Rightarrow> Inl \<lparr>resp_status = 400, resp_body = Error_message ''Invalid signature''\<rparr>
         | Some ev \<Rightarrow> Inr ev)
      else
        (case json_parse env (req_body req) of
           Inl msg \<Rightarrow> Inl (internal_error msg)
         | Inr ev \<Rightarrow> Inr ev))"

text \<open>
  The switch on \<open>event.type\<close> (lines 66-166). The result is the \<^verbatim>\<open>error\<close> of the update and
  the table after it; the handler only logs the error.
\<close>

definition process_event ::
  "(transaction \<Rightarrow> bool) \<Rightarrow> nat \<Rightarrow> stripe_event \<Rightarrow> transaction list \<Rightarrow> bool \<times> transaction list"
  where
  "process_event chk now ev rows =
     (let obj = ev_object ev in
      if ev_type ev = ''payment_intent.succeeded'' then
        update_transactions chk
          (\<lambda>t. t\<lparr>status := ''paid'', gateway_response := Some obj, settled_at := Some now\<rparr>)
          (obj_id obj) rows
      else if ev_type ev = ''payment_intent.payment_failed'' then
        update_transactions chk
          (\<lambda>t. t\<lparr>status := ''failed'', gateway_response := Some obj\<rparr>)
          (obj_id obj) rows
      else if ev_type ev = ''payment_intent.canceled'' then
        update_transactions chk
          (\<lambda>t. t\<lparr>status := ''cancelled'', gateway_response := Some obj\<rparr>)
          (obj_id obj) rows
      else if ev_type ev = ''charge.refunded'' then
        update_transactions chk
          (\<lambda>t. t\<lparr>status := ''refunded'', gateway_response := Some obj, refunded_at := Some now\<rparr>)
          (obj_payment_intent obj) rows
      else if ev_type ev = ''charge.dispute.created'' then
        update_transactions chk
          (\<lambda>t. t\<lparr>status := ''chargeback'', gateway_response := Some obj\<rparr>)
          (obj_payment_intent obj) rows
      else (False, rows))"

text \<open>Lines 168-178: one \<open>activity_logs\<close> row per processed request.\<close>

definition webhook_log :: "stripe_event \<Rightarrow> activity_log" where
  "webhook_log ev =
     \<lparr>action = ''stripe_webhook'', resource_type = ''webhook'',
      details_event_type = ev_type ev, details_event_id = ev_id ev\<rparr>"

text \<open>
  The handler (lines 11-205), with the row constraint of \<open>transactions\<close>, the clock and the
  store made explicit.
\<close>

definition stripe_webhook ::
  "webhook_env \<Rightarrow> (transaction \<Rightarrow> bool) \<Rightarrow> nat \<Rightarrow> webhook_request \<Rightarrow> store \<Rightarrow> response \<times> store"
  where
  "stripe_webhook env chk now req st =
     (if req_method req = ''OPTIONS'' then (\<lparr>resp_status = 200, resp_body = No_body\<rparr>, st)
      else
        (case stripe_config st of
           None \<Rightarrow> (internal_error ''Stripe nao esta configurado'', st)
         | Some cfg \<Rightarrow>
             if \<not> truthy (api_key_secret cfg)
             then (internal_error ''Stripe nao esta configurado'', st)
             else
               (case receive_event env cfg req of
                  Inl r \<Rightarrow> (r, st)
                | Inr ev \<Rightarrow>
                    (\<lparr>resp_status = 200, resp_body = Received\<rparr>,
                     st\<lparr>transactions := snd (process_event chk now ev (transactions st)),
                        activity_logs := activity_logs st @ [webhook_log ev]\<rparr>))))"

text \<open>
  Two readings of the switch, used to state what it does: the status literal of each case,
  and the reference each case filters on (\<open>paymentIntent.id\<close> in the three
  \<open>payment_intent\<close> cases, \<open>payment_intent\<close> of the charge or dispute in the other two).
\<close>

definition event_status :: "string \<Rightarrow> string option" where
  "event_status ty =
     (if ty = ''payment_intent.succeeded'' then Some ''paid''
      else if ty = ''payment_intent.payment_failed'' then Some ''failed''
      else if ty = ''payment_intent.canceled'' then Some ''cancelled''
      else if ty = ''charge.refunded'' then Some ''refunded''
      else if ty = ''charge.dispute.created'' then Some ''chargeback''
      else None)"

definition event_ref :: "stripe_event \<Rightarrow> string" where
  "event_ref ev =
     (if ev_type ev = ''charge.refunded'' \<or> ev_type ev = ''charge.dispute.created''
      then obj_payment_intent (ev_object ev) else obj_id (ev_object ev))"

text \<open>
  A third reading of the switch: the patch each case writes. Only the \<open>succeeded\<close> and
  \<open>refunded\<close> cases stamp a time.
\<close>

definition event_patch :: "nat \<Rightarrow> stripe_event \<Rightarrow> transaction \<Rightarrow> transaction" where
  "event_patch now ev t =
     (if ev_type ev = ''payment_intent.succeeded'' then
        t\<lparr>status := ''paid'', gateway_response := Some (ev_object ev), settled_at := Some now\<rparr>
      else if ev_type ev = ''charge.refunded'' then
        t\<lparr>status := ''refunded'', gateway_response := Some (ev_object ev),
          refunded_at := Some now\<rparr>
      else t\<lparr>status := the (event_status (ev_type ev)), gateway_response := Some (ev_object ev)\<rparr>)"

text \<open>A row without the two time stamps the webhook writes.\<close>

definition unstamp :: "transaction \<Rightarrow> transaction" where
  "unstamp t = t\<lparr>settled_at := None, refunded_at := None\<rparr>"

subsection \<open>The create-payment-stripe handler\<close>

record payment_request =
  pr_amount :: rat
  pr_payment_method :: string
  pr_customer_name :: string
  pr_customer_email :: string
  pr_customer_document :: string
  pr_customer_phone :: "string option"
  pr_description :: "string option"
  pr_payment_method_id :: "string option"

text \<open>
  The HTTP request: the method, the \<open>Authorization\<close> header and the result of
  \<^verbatim>\<open>await req.json()\<close> (\<open>None\<close> when it throws).
\<close>

record payment_http_request =
  pay_method :: string
  authorization :: "string option"
  pay_json :: "payment_request option"

text \<open>The argument of \<^verbatim>\<open>stripe.paymentIntents.create\<close> (lines 94-108).\<close>

record intent_params =
  ip_amount :: int
  ip_currency :: string
  ip_customer :: string
  ip_description :: string
  ip_payment_method :: "string option"
  ip_confirm :: bool
  ip_automatic_payment_methods :: bool
  ip_user_id :: string
  ip_customer_document :: string

text \<open>
  The external calls. \<open>get_user\<close> stands for
  \<^verbatim>\<open>supabase.auth.getUser(authHeader.replace('Bearer ', ''))\<close> and yields the user's id,
  \<open>None\<close> on an auth error or when there is no user. The three Stripe calls yield \<open>None\<close>
  when they throw; \<open>customers_list\<close> yields the ids of the customers with the given email.
  \<open>math_round_cents\<close> stands for the expression \<^verbatim>\<open>Math.round(amount * 100)\<close> of line 95, which
  the source evaluates in double arithmetic: the product is rounded to a double before
  \<^verbatim>\<open>Math.round\<close> is applied, so its value is not the exact rounding of the exact product.
  Double arithmetic is not modelled; the expression is a parameter.
\<close>

record payment_env =
  get_user :: "string \<Rightarrow> string option"
  customers_list :: "string \<Rightarrow> string list option"
  customers_create :: "string \<Rightarrow> string \<Rightarrow> string \<Rightarrow> string \<Rightarrow> string option"
  paymentIntents_create :: "intent_params \<Rightarrow> stripe_object option"
  math_round_cents :: "rat \<Rightarrow> int"

text \<open>The \<^verbatim>\<open>catch\<close> block of this handler (lines 181-196): status 400.\<close>

definition payment_error :: "string \<Rightarrow> response" where
  "payment_error msg = \<lparr>resp_status = 400, resp_body = Error_message msg\<rparr>"

text \<open>Lines 73-91: the first customer with the email, else a new one.\<close>

definition resolve_customer :: "payment_env \<Rightarrow> payment_request \<Rightarrow> string option" where
  "resolve_customer env pr =
     (case customers_list env (pr_customer_email pr) of
        None \<Rightarrow> None
      | Some [] \<Rightarrow>
          customers_create env (pr_customer_email pr) (pr_customer_name pr)
            (pr_customer_document pr)
            (case pr_customer_phone pr of None \<Rightarrow> [] | Some ph \<Rightarrow> ph)
      | Some (c # cs) \<Rightarrow> Some c)"

definition description_or_default :: "payment_request \<Rightarrow> string" where
  "description_or_default pr =
     (if truthy (pr_description pr) then the (pr_description pr) else ''Pagamento'')"

definition intent_request ::
  "payment_env \<Rightarrow> string \<Rightarrow> string \<Rightarrow> payment_request \<Rightarrow> intent_params" where
  "intent_request env uid customer pr =
     \<lparr>ip_amount = math_round_cents env (pr_amount pr), ip_currency = ''brl'', ip_customer = customer,
      ip_description = description_or_default pr,
      ip_payment_method = pr_payment_method_id pr,
      ip_confirm = truthy (pr_payment_method_id pr),
      ip_automatic_payment_methods = (\<not> truthy (pr_payment_method_id pr)),
      ip_user_id = uid, ip_customer_document = pr_customer_document pr\<rparr>"

text \<open>
  The row of lines 127-143; the columns the insert does not name take the defaults of the
  table, and \<open>new_id\<close> is the id the database generates.
\<close>

definition new_transaction ::
  "string \<Rightarrow> string \<Rightarrow> payment_request \<Rightarrow> stripe_object \<Rightarrow> transaction" where
  "new_transaction new_id uid pr intent =
     \<lparr>tx_id = new_id, user_id = uid, amount = pr_amount pr,
      payment_method = pr_payment_method pr, payment_gateway = ''stripe'',
      gateway_transaction_id = obj_id intent, gateway_response = Some intent,
      status = transactionStatus (obj_status intent),
      customer_name = pr_customer_name pr, customer_email = pr_customer_email pr,
      customer_document = pr_customer_document pr,
      description = description_or_default pr,
      settled_at = None, fee_amount = 0, net_amount = None, completed_at = None,
      refunded_at = None\<rparr>"

text \<open>
  The handler (lines 24-197). Every \<^verbatim>\<open>throw\<close> ends in the \<^verbatim>\<open>catch\<close> block; the insert fails
  when the new row violates the row constraint \<open>chk\<close>. \<open>elapsed\<close> is the measured
  processing time. The message of an error thrown by an external call is not modelled: the
  body then carries the default message of the \<^verbatim>\<open>catch\<close> block. Messages are written
  without diacritics.
\<close>

definition create_payment ::
  "payment_env \<Rightarrow> (transaction \<Rightarrow> bool) \<Rightarrow> string \<Rightarrow> nat \<Rightarrow> payment_http_request \<Rightarrow> store
     \<Rightarrow> response \<times> store" where
  "create_payment env chk new_id elapsed req st =
     (if pay_method req = ''OPTIONS'' then (\<lparr>resp_status = 200, resp_body = No_body\<rparr>, st)
      else if \<not> truthy (authorization req)
        then (payment_error ''Token de autenticacao nao fornecido'', st)
      else
        (case get_user env (the (authorization req)) of
           None \<Rightarrow> (payment_error ''Usuario nao autenticado'', st)
         | Some uid \<Rightarrow>
        (case stripe_config st of
           None \<Rightarrow> (payment_error ''Stripe nao esta configurado ou ativo'', st)
         | Some cfg \<Rightarrow>
             if \<not> is_active cfg
               then (payment_error ''Stripe nao esta configurado ou ativo'', st)
             else if \<not> truthy (api_key_secret cfg)
               then (payment_error ''Chave secreta do Stripe nao configurada'', st)
             else
        (case pay_json req of
           None \<Rightarrow> (payment_error ''Erro ao processar pagamento'', st)
         | Some pr \<Rightarrow>
        (case resolve_customer env pr of
           None \<Rightarrow> (payment_error ''Erro ao processar pagamento'', st)
         | Some customer \<Rightarrow>
        (case paymentIntents_create env (intent_request env uid customer pr) of
           None \<Rightarrow> (payment_error ''Erro ao processar pagamento'', st)
         | Some intent \<Rightarrow>
             if \<not> chk (new_transaction new_id uid pr intent)
               then (payment_error ''Erro ao salvar transacao no banco de dados'', st)
             else
               (\<lparr>resp_status = 200,
                 resp_body = Created
                   \<lparr>transaction_id = new_id, stripe_payment_intent_id = obj_id intent,
                    stripe_client_secret = obj_client_secret intent,
                    created_status = transactionStatus (obj_status intent),
                    created_amount = pr_amount pr,
                    created_payment_method = pr_payment_method pr\<rparr>\<rparr>,
                st\<lparr>transactions := transactions st @ [new_transaction new_id uid pr intent],
                   psp_transaction_logs := psp_transaction_logs st @
                     [\<lparr>log_transaction_id = new_id, log_psp_name = ''stripe'',
                       log_status_code = 200, log_processing_time_ms = elapsed\<rparr>]\<rparr>)))))))"

subsection \<open>The outbound webhook dispatcher\<close>

text \<open>Modelled from the spec: the Outbound Webhook Dispatcher (sections 4.4 and 5). No
  dispatcher is under \<^verbatim>\<open>src\<close>; only the tables \<open>webhooks\<close> (with its \<open>active\<close> flag) and
  \<open>webhook_deliveries\<close> (\<open>response_status\<close>, \<open>attempts\<close>, \<open>delivered\<close>) are declared there.
  The retry policy is the configuration the spec names: a maximum attempt count and a
  backoff base, with the bound of the "bounded exponential backoff".
\<close>

record retry_policy =
  max_attempts :: nat
  backoff_base :: nat
  backoff_cap :: nat

text \<open>Modelled from the spec: one recorded delivery attempt, with its number, the time it was
  issued and the response status (\<open>None\<close> for a network failure or a timeout).
\<close>

record delivery_attempt =
  attempt_no :: nat
  issued_at :: nat
  attempt_response :: "nat option"

text \<open>Modelled from the spec: the delivery bookkeeping of one (endpoint, event) pair: the
  recorded attempts in order, the attempt count, the last response status, the
  \<open>delivered\<close> flag and the mark set when the retries are exhausted.
\<close>

record webhook_delivery =
  history :: "delivery_attempt list"
  attempts :: nat
  response_status :: "nat option"
  delivered :: bool
  permanently_failed :: bool

text \<open>Modelled from the spec: the delay scheduled after the failure of attempt \<open>k\<close>,
  exponential in \<open>k\<close> and bounded.
\<close>

definition backoff_delay :: "retry_policy \<Rightarrow> nat \<Rightarrow> nat" where
  "backoff_delay pol k = min (backoff_cap pol) (backoff_base pol * 2 ^ (k - 1))"

text \<open>Modelled from the spec: "mark delivered=true on any 2xx response".
\<close>

definition is_2xx :: "nat option \<Rightarrow> bool" where
  "is_2xx r = (case r of None \<Rightarrow> False | Some c \<Rightarrow> 200 \<le> c \<and> c < 300)"

text \<open>Modelled from the spec: the retry loop. \<open>left\<close> is the number of attempts the policy
  still allows, \<open>k\<close> the number of the next attempt, \<open>t\<close> its time, \<open>active k\<close> whether
  the endpoint is active when attempt \<open>k\<close> is due and \<open>respond k\<close> what the endpoint
  answers to it. No attempt is issued for a deactivated endpoint; a 2xx response ends the
  loop with \<open>delivered\<close>; any other outcome schedules the next attempt after the backoff
  delay; with no attempt left the delivery is marked permanently failed.
\<close>

fun dispatch ::
  "retry_policy \<Rightarrow> (nat \<Rightarrow> bool) \<Rightarrow> (nat \<Rightarrow> nat option) \<Rightarrow> nat \<Rightarrow> nat \<Rightarrow> nat \<Rightarrow> webhook_delivery
     \<Rightarrow> webhook_delivery" where
  "dispatch pol active respond 0 k t d = d\<lparr>permanently_failed := True\<rparr>"
| "dispatch pol active respond (Suc left) k t d =
     (if \<not> active k then d
      else
        (let d' = d\<lparr>history := history d @
                       [\<lparr>attempt_no = k, issued_at = t, attempt_response = respond k\<rparr>],
                    attempts := k, response_status := respond k\<rparr>
         in if is_2xx (respond k) then d'\<lparr>delivered := True\<rparr>
            else dispatch pol active respond left (Suc k) (t + backoff_delay pol k) d'))"

text \<open>Modelled from the spec: the delivery of one event to one endpoint, starting at time
  \<open>t0\<close> with the attempt count the policy allows.
\<close>

definition deliver ::
  "retry_policy \<Rightarrow> (nat \<Rightarrow> bool) \<Rightarrow> (nat \<Rightarrow> nat option) \<Rightarrow> nat \<Rightarrow> webhook_delivery" where
  "deliver pol active respond t0 =
     dispatch pol active respond (max_attempts pol) 1 t0
       \<lparr>history = [], attempts = 0, response_status = None, delivered = False,
        permanently_failed = False\<rparr>"

subsection \<open>Concrete inputs\<close>

text \<open>
  A store with one configuration row, one transaction of reference \<open>pi_1\<close> and one wallet;
  an environment whose decoder reads the event type from the body and whose verifier accepts
  the signature \<open>valid\<close>.
\<close>

definition ex_object :: stripe_object where
  "ex_object = \<lparr>obj_id = ''pi_1'', obj_status = ''requires_payment_method'',
                 obj_client_secret = None, obj_payment_intent = ''pi_1''\<rparr>"

definition ex_event :: "string \<Rightarrow> stripe_event" where
  "ex_event ty = \<lparr>ev_id = ''evt_1'', ev_type = ty, ev_object = ex_object\<rparr>"

definition ex_env :: webhook_env where
  "ex_env =
     \<lparr>constructEvent = (\<lambda>body sg secret. if sg = ''valid'' then Some (ex_event body) else None),
      json_parse = (\<lambda>body. if body = [] then Inl ''Unexpected end of JSON input''
                           else Inr (ex_event body))\<rparr>"

definition ex_config :: "string option \<Rightarrow> psp_configuration" where
  "ex_config secret =
     \<lparr>psp_name = ''stripe'', api_key_secret = Some ''sk_test'', webhook_secret = secret,
      is_active = True\<rparr>"

definition ex_transaction :: "string \<Rightarrow> transaction" where
  "ex_transaction s =
     \<lparr>tx_id = ''tx_1'', user_id = ''u1'', amount = 10000, payment_method = ''credit_card'',
      payment_gateway = ''stripe'', gateway_transaction_id = ''pi_1'', gateway_response = None,
      status = s, customer_name = ''Ana'', customer_email = ''ana@example.org'',
      customer_document = ''123'', description = ''Pagamento'', settled_at = None,
      fee_amount = 0, net_amount = None, completed_at = None, refunded_at = None\<rparr>"

definition ex_wallet :: wallet where
  "ex_wallet = \<lparr>wallet_user_id = ''u1'', balance = 0, pending_balance = 0, blocked_balance = 0\<rparr>"

definition ex_store :: "string option \<Rightarrow> string \<Rightarrow> store" where
  "ex_store secret s =
     \<lparr>psp_configurations = [ex_config secret], transactions = [ex_transaction s],
      wallets = [ex_wallet], fees = [], activity_logs = [], psp_transaction_logs = []\<rparr>"

definition ex_payment_request :: "rat \<Rightarrow> payment_http_request" where
  "ex_payment_request a =
     \<lparr>pay_method = ''POST'', authorization = Some ''Bearer token'',
      pay_json = Some
        \<lparr>pr_amount = a, pr_payment_method = ''credit_card'', pr_customer_name = ''Ana'',
         pr_customer_email = ''ana@example.org'', pr_customer_document = ''123'',
         pr_customer_phone = None, pr_description = None, pr_payment_method_id = None\<rparr>\<rparr>"

text \<open>
  A provider that answers every intent creation with the given status. The amounts 10 and
  10.5 are doubles whose product with 100 is exact, so \<^verbatim>\<open>Math.round(amount * 100)\<close> is 1000
  and 1050 there; the rounding of this environment is given at these two amounts, the only
  ones used below.
\<close>

definition ex_payment_env :: "string \<Rightarrow> payment_env" where
  "ex_payment_env s =
     \<lparr>get_user = (\<lambda>h. if h = ''Bearer token'' then Some ''u1'' else None),
      customers_list = (\<lambda>email. Some []),
      customers_create = (\<lambda>email name document phone. Some ''cus_1''),
      paymentIntents_create = (\<lambda>ip. Some
        \<lparr>obj_id = ''pi_2'', obj_status = s, obj_client_secret = Some ''secret'',
         obj_payment_intent = []\<rparr>),
      math_round_cents = (\<lambda>a. if a = 10 then 1000 else if a = 21 / 2 then 1050 else 0)\<rparr>"

definition ex_request :: "string option \<Rightarrow> string \<Rightarrow> webhook_request" where
  "ex_request sg body = \<lparr>req_method = ''POST'', stripe_signature = sg, req_body = body\<rparr>"

text \<open>
  A policy of five attempts and an endpoint that answers 500 three times, then 200.
\<close>

definition ex_policy :: retry_policy where
  "ex_policy = \<lparr>max_attempts = 5, backoff_base = 2, backoff_cap = 60\<rparr>"

definition ex_endpoint :: "nat \<Rightarrow> nat option" where
  "ex_endpoint k = (if k < 4 then Some 500 else Some 200)"

section \<open>Properties of the handlers\<close>

subsection \<open>Unfolding sets and auxiliary facts\<close>

lemmas ex_defs = ex_object_def ex_event_def ex_env_def ex_config_def ex_transaction_def
  ex_wallet_def ex_store_def ex_request_def ex_payment_request_def ex_payment_env_def

lemmas handler_defs = stripe_webhook_def stripe_config_def single_row_def truthy_def
  receive_event_def internal_error_def process_event_def update_transactions_def matching_def
  webhook_log_def

lemmas payment_defs = create_payment_def stripe_config_def single_row_def truthy_def
  payment_error_def resolve_customer_def intent_request_def new_transaction_def
  description_or_default_def transactionStatus_def

lemma matching_Nil_map:
  "matching r rows = [] \<Longrightarrow> map (\<lambda>t. if gateway_transaction_id t = r then p t else t) rows = rows"
  by (induction rows) (auto simp: matching_def split: if_splits)

lemma update_no_match:
  "matching r rows = [] \<Longrightarrow> update_transactions chk p r rows = (False, rows)"
  by (simp add: update_transactions_def matching_Nil_map)

lemma update_rejected: "update_transactions chk p r rows = (True, rows') \<Longrightarrow> rows' = rows"
  by (simp add: update_transactions_def split: if_splits)

lemma update_accepted:
  "update_transactions chk p r rows = (False, rows') \<Longrightarrow>
     rows' = map (\<lambda>t. if gateway_transaction_id t = r then p t else t) rows"
  by (simp add: update_transactions_def split: if_splits)

lemma update_column:
  assumes "\<And>t. f (p t) = f t"
  shows "map f (snd (update_transactions chk p r rows)) = map f rows"
  using assms by (simp add: update_transactions_def)

lemma process_event_eq:
  "process_event chk now ev rows =
     (if event_status (ev_type ev) = None then (False, rows)
      else update_transactions chk (event_patch now ev) (event_ref ev) rows)"
  by (simp add: process_event_def event_status_def event_ref_def event_patch_def [abs_def] Let_def)

lemma process_event_no_match:
  "matching (event_ref ev) rows = [] \<Longrightarrow> process_event chk now ev rows = (False, rows)"
  by (simp add: process_event_eq update_no_match)

lemma event_patch_status:
  "event_status (ev_type ev) = Some T \<Longrightarrow> status (event_patch now ev t) = T"
  by (auto simp: event_patch_def event_status_def split: if_splits)

lemma event_patch_gid: "gateway_transaction_id (event_patch now ev t) = gateway_transaction_id t"
  by (simp add: event_patch_def)

lemma stripe_config_result:
  "stripe_config (snd (stripe_webhook env chk now req st)) = stripe_config st"
  by (simp add: stripe_webhook_def stripe_config_def split: option.splits sum.splits)

lemma webhook_accepted:
  assumes "req_method req \<noteq> ''OPTIONS''" "stripe_config st = Some cfg"
    "truthy (api_key_secret cfg)" "receive_event env cfg req = Inr ev"
  shows "stripe_webhook env chk now req st =
     (\<lparr>resp_status = 200, resp_body = Received\<rparr>,
      st\<lparr>transactions := snd (process_event chk now ev (transactions st)),
         activity_logs := activity_logs st @ [webhook_log ev]\<rparr>)"
  using assms by (simp add: stripe_webhook_def)

lemma webhook_not_configured:
  assumes "req_method req \<noteq> ''OPTIONS''"
    "stripe_config st = None \<or> (\<exists>cfg. stripe_config st = Some cfg \<and> \<not> truthy (api_key_secret cfg))"
  shows "stripe_webhook env chk now req st = (internal_error ''Stripe nao esta configurado'', st)"
  using assms by (auto simp: stripe_webhook_def)

lemma webhook_refused:
  assumes "req_method req \<noteq> ''OPTIONS''" "stripe_config st = Some cfg"
    "truthy (api_key_secret cfg)" "receive_event env cfg req = Inl r"
  shows "stripe_webhook env chk now req st = (r, st)"
  using assms by (simp add: stripe_webhook_def)

lemma receive_event_Inl_status:
  "receive_event env cfg req = Inl r \<Longrightarrow> resp_status r = 400 \<or> resp_status r = 500"
  by (auto simp: receive_event_def internal_error_def split: if_splits option.splits sum.splits)

lemma webhook_status_set:
  "resp_status (fst (stripe_webhook env chk now req st)) \<in> {200, 400, 500}"
proof (cases "req_method req = ''OPTIONS''")
  case True
  then show ?thesis by (simp add: stripe_webhook_def)
next
  case False
  show ?thesis
  proof (cases "stripe_config st")
    case None
    with False show ?thesis by (simp add: webhook_not_configured internal_error_def)
  next
    case (Some cfg)
    show ?thesis
    proof (cases "truthy (api_key_secret cfg)")
      case no_key: False
      with False Some show ?thesis by (simp add: webhook_not_configured internal_error_def)
    next
      case key: True
      show ?thesis
      proof (cases "receive_event env cfg req")
        case (Inl r)
        with False Some key receive_event_Inl_status [OF Inl] show ?thesis
          by (auto simp: webhook_refused)
      next
        case (Inr ev)
        with False Some key show ?thesis by (simp add: webhook_accepted)
      qed
    qed
  qed
qed

lemma matching_update:
  assumes "\<And>t. gateway_transaction_id (p t) = gateway_transaction_id t"
  shows "matching r (map (\<lambda>t. if gateway_transaction_id t = r then p t else t) rows)
           = map p (matching r rows)"
  using assms by (induction rows) (auto simp: matching_def)

lemma update_twice_same:
  assumes gid: "\<And>t. gateway_transaction_id (p t) = gateway_transaction_id t"
    and idem: "\<And>t. p (p t) = p t"
  shows "snd (update_transactions chk p r (snd (update_transactions chk p r rows)))
           = snd (update_transactions chk p r rows)"
proof (cases "list_all chk (map p (matching r rows))")
  case False
  then show ?thesis by (simp add: update_transactions_def)
next
  case True
  then show ?thesis
    by (simp add: update_transactions_def matching_update [OF gid] idem o_def)
qed

lemma update_twice_unstamped:
  assumes gid: "\<And>t. gateway_transaction_id (p t) = gateway_transaction_id t"
    and chk: "\<And>t. chk (q t) = chk (p t)"
    and over: "\<And>t. unstamp (q (p t)) = unstamp (p t)"
  shows "map unstamp (snd (update_transactions chk q r (snd (update_transactions chk p r rows))))
           = map unstamp (snd (update_transactions chk p r rows))"
proof (cases "list_all chk (map p (matching r rows))")
  case False
  then have "\<not> list_all chk (map q (matching r rows))"
    by (simp add: list_all_iff chk)
  with False show ?thesis by (simp add: update_transactions_def)
next
  case True
  then show ?thesis
    by (simp add: update_transactions_def matching_update [OF gid] over o_def)
qed

lemma event_patch_idem: "event_patch now ev (event_patch now ev t) = event_patch now ev t"
  by (simp add: event_patch_def)

lemma event_patch_unstamp:
  "unstamp (event_patch now' ev (event_patch now ev t)) = unstamp (event_patch now ev t)"
  by (simp add: event_patch_def unstamp_def)

lemma event_patch_unstamp_clock:
  "unstamp (event_patch now' ev t) = unstamp (event_patch now ev t)"
  by (simp add: event_patch_def unstamp_def)

lemma process_event_twice_same:
  "snd (process_event chk now ev (snd (process_event chk now ev rows)))
     = snd (process_event chk now ev rows)"
  by (simp add: process_event_eq update_twice_same event_patch_gid event_patch_idem)

lemma process_event_twice_unstamped:
  assumes "\<And>t. chk t = chk (unstamp t)"
  shows "map unstamp (snd (process_event chk now' ev (snd (process_event chk now ev rows))))
     = map unstamp (snd (process_event chk now ev rows))"
proof -
  have "chk (event_patch now' ev t) = chk (event_patch now ev t)" for t
    using assms [of "event_patch now' ev t"] assms [of "event_patch now ev t"]
    by (simp add: event_patch_unstamp_clock [of now' ev t now])
  then show ?thesis
    by (simp add: process_event_eq update_twice_unstamped event_patch_gid event_patch_unstamp)
qed

lemma process_event_column:
  assumes "\<And>t. f (event_patch now ev t) = f t"
  shows "map f (snd (process_event chk now ev rows)) = map f rows"
  using assms by (simp add: process_event_eq update_column)

lemma webhook_column:
  assumes "\<And>ev t. f (event_patch now ev t) = f t"
  shows "map f (transactions (snd (stripe_webhook env chk now req st))) = map f (transactions st)"
  using assms
  by (simp add: stripe_webhook_def process_event_column split: option.splits sum.splits)


lemma dispatch_step:
  "0 < left \<Longrightarrow>
   dispatch pol active respond left k t d =
     (if \<not> active k then d
      else if is_2xx (respond k)
        then d\<lparr>history := history d @
                   [\<lparr>attempt_no = k, issued_at = t, attempt_response = respond k\<rparr>],
               attempts := k, response_status := respond k, delivered := True\<rparr>
        else dispatch pol active respond (left - 1) (k + 1) (t + backoff_delay pol k)
               (d\<lparr>history := history d @
                    [\<lparr>attempt_no = k, issued_at = t, attempt_response = respond k\<rparr>],
                  attempts := k, response_status := respond k\<rparr>))"
  by (cases left) (simp_all add: Let_def)

lemma dispatch_inactive:
  "\<not> active k \<Longrightarrow>
   history (dispatch pol active respond left k t d) = history d \<and>
   attempts (dispatch pol active respond left k t d) = attempts d \<and>
   delivered (dispatch pol active respond left k t d) = delivered d"
  by (cases left) simp_all

lemma update_then_column:
  assumes gid: "\<And>t. gateway_transaction_id (p t) = gateway_transaction_id t"
    and col: "\<And>t. f (q t) = c"
  shows "map f (map (\<lambda>t. if gateway_transaction_id t = r then q t else t)
                 (snd (update_transactions chk p r rows)))
           = map (\<lambda>t. if gateway_transaction_id t = r then c else f t) rows"
  by (simp add: update_transactions_def gid col o_def)

lemma process_event_then_column:
  assumes handled: "event_status (ev_type ev) \<noteq> None"
    and accepted: "fst (process_event chk now' ev (snd (process_event chk now ev rows))) = False"
    and col: "\<And>t. f (event_patch now' ev t) = c"
  shows "map f (snd (process_event chk now' ev (snd (process_event chk now ev rows))))
           = map (\<lambda>t. if gateway_transaction_id t = event_ref ev then c else f t) rows"
proof -
  let ?rows1 = "snd (update_transactions chk (event_patch now ev) (event_ref ev) rows)"
  have first: "snd (process_event chk now ev rows) = ?rows1"
    by (simp add: process_event_eq handled)
  have second: "process_event chk now' ev ?rows1
      = update_transactions chk (event_patch now' ev) (event_ref ev) ?rows1"
    by (simp add: process_event_eq handled)
  from accepted have "update_transactions chk (event_patch now' ev) (event_ref ev) ?rows1
      = (False, snd (update_transactions chk (event_patch now' ev) (event_ref ev) ?rows1))"
    by (simp add: first second prod_eq_iff)
  then have upd: "snd (update_transactions chk (event_patch now' ev) (event_ref ev) ?rows1)
      = map (\<lambda>t. if gateway_transaction_id t = event_ref ev then event_patch now' ev t else t)
          ?rows1"
    by (rule update_accepted)
  have "map f (snd (process_event chk now' ev (snd (process_event chk now ev rows))))
      = map f (snd (update_transactions chk (event_patch now' ev) (event_ref ev) ?rows1))"
    by (simp only: first second)
  also have "\<dots> = map f (map (\<lambda>t. if gateway_transaction_id t = event_ref ev
                                     then event_patch now' ev t else t) ?rows1)"
    by (simp only: upd)
  also have "\<dots> = map (\<lambda>t. if gateway_transaction_id t = event_ref ev then c else f t) rows"
    by (rule update_then_column) (simp_all add: event_patch_gid col)
  finally show ?thesis .
qed

lemma process_event_rejected:
  "fst (process_event chk now ev rows) \<Longrightarrow> snd (process_event chk now ev rows) = rows"
  by (simp add: process_event_eq update_transactions_def split: if_splits)


subsection \<open>Missing webhook secret\<close>




subsection \<open>Status transitions\<close>

text \<open>
  C2, as the handler implements it. The switch has no transition table: for an event type
  with a case of its own, whenever the storage layer accepts the update, every transaction
  whose \<open>gateway_transaction_id\<close> is the event's reference gets the status of that case,
  whatever its current status, and every other transaction keeps its status; when the
  storage layer rejects the update, and for every other event type, the table is unchanged.
\<close>

theorem event_overwrites_status:
  "(\<forall>T rows'. event_status (ev_type ev) = Some T \<and>
        process_event chk now ev rows = (False, rows')
      \<longrightarrow> map status rows'
            = map (\<lambda>t. if gateway_transaction_id t = event_ref ev then T else status t) rows) \<and>
   (\<forall>rows'. process_event chk now ev rows = (True, rows') \<longrightarrow> rows' = rows) \<and>
   (event_status (ev_type ev) = None \<longrightarrow> process_event chk now ev rows = (False, rows))"
proof (intro conjI allI impI)
  fix T rows'
  assume a: "event_status (ev_type ev) = Some T \<and> process_event chk now ev rows = (False, rows')"
  then have "update_transactions chk (event_patch now ev) (event_ref ev) rows = (False, rows')"
    by (clarsimp simp: process_event_eq)
  then have "rows' = map (\<lambda>t. if gateway_transaction_id t = event_ref ev
                               then event_patch now ev t else t) rows"
    by (rule update_accepted)
  with a show "map status rows'
      = map (\<lambda>t. if gateway_transaction_id t = event_ref ev then T else status t) rows"
    by (clarsimp simp: event_patch_status)
next
  fix rows'
  assume "process_event chk now ev rows = (True, rows')"
  then have "update_transactions chk (event_patch now ev) (event_ref ev) rows = (True, rows')"
    by (simp add: process_event_eq split: if_splits)
  then show "rows' = rows"
    by (rule update_rejected)
next
  assume "event_status (ev_type ev) = None"
  then show "process_event chk now ev rows = (False, rows)"
    by (simp add: process_event_eq)
qed

text \<open>
  C2, an instance: a \<open>refunded\<close> transaction receiving \<open>payment_intent.canceled\<close> becomes
  \<open>cancelled\<close>; an event type without a case leaves the table as it is.
\<close>

theorem event_overwrites_status_witness:
  "event_status (ev_type (ex_event ''payment_intent.canceled'')) = Some ''cancelled'' \<and>
   fst (process_event transactions_check 7 (ex_event ''payment_intent.canceled'')
          [ex_transaction ''refunded'']) = False \<and>
   map status (snd (process_event transactions_check 7 (ex_event ''payment_intent.canceled'')
          [ex_transaction ''refunded''])) = [''cancelled''] \<and>
   event_status (ev_type (ex_event ''customer.created'')) = None \<and>
   process_event transactions_check 7 (ex_event ''customer.created'') [ex_transaction ''refunded'']
     = (False, [ex_transaction ''refunded''])"
  using event_overwrites_status [of "ex_event ''payment_intent.canceled''" transactions_check 7
      "[ex_transaction ''refunded'']"]
    event_overwrites_status [of "ex_event ''customer.created''" transactions_check 7
      "[ex_transaction ''refunded'']"]
  by (simp add: ex_defs handler_defs transactions_check_def event_status_def event_ref_def)

text \<open>
  C2 as stated (a non-listed pair leaves the status unchanged; \<open>paid\<close> stays \<open>paid\<close> on
  \<open>payment_failed\<close>) fails: a \<open>paid\<close> transaction receiving
  \<open>payment_intent.payment_failed\<close> becomes \<open>failed\<close>, and a \<open>failed\<close> transaction receiving
  \<open>payment_intent.canceled\<close> becomes \<open>cancelled\<close>; neither pair is an edge of the state machine.
\<close>

theorem paid_overwritten_by_failed:
  "map status (transactions (ex_store (Some ''whsec'') ''paid'')) = [''paid''] \<and>
   map status (transactions (snd (stripe_webhook ex_env transactions_check 7
      (ex_request (Some ''valid'') ''payment_intent.payment_failed'')
      (ex_store (Some ''whsec'') ''paid'')))) = [''failed''] \<and>
   map status (transactions (ex_store (Some ''whsec'') ''failed'')) = [''failed''] \<and>
   map status (transactions (snd (stripe_webhook ex_env transactions_check 7
      (ex_request (Some ''valid'') ''payment_intent.canceled'')
      (ex_store (Some ''whsec'') ''failed'')))) = [''cancelled'']"
  by (simp add: ex_defs handler_defs transactions_check_def)

subsection \<open>Redelivery of an event\<close>

text \<open>
  C3, as the handler implements it. The handler keeps no dedup record. When a request is
  accepted and then delivered again, the second run gives the same response (200) and runs
  the update again. When the storage layer accepts the second update, every transaction
  with the event's reference has the status of the event's case, and the second run has
  re-written the time stamp with its own clock: \<open>settled_at\<close> on
  \<open>payment_intent.succeeded\<close>, \<open>refunded_at\<close> on \<open>charge.refunded\<close>. The transactions after
  the second run equal those after the first when both runs read the same clock, and
  equal them up to these two stamps when the row constraint does not read the stamps. Fees
  and wallets are untouched, and each run appends one \<open>activity_logs\<close> row, so two rows
  carry the event's id.
\<close>

theorem redelivery_reapplies_event:
  assumes "req_method req \<noteq> ''OPTIONS''" and "stripe_config st = Some cfg"
    and "truthy (api_key_secret cfg)" and "receive_event env cfg req = Inr ev"
  shows "fst (stripe_webhook env chk now' req (snd (stripe_webhook env chk now req st)))
           = fst (stripe_webhook env chk now req st) \<and>
         resp_status (fst (stripe_webhook env chk now req st)) = 200 \<and>
         (now' = now \<longrightarrow>
            transactions (snd (stripe_webhook env chk now' req (snd (stripe_webhook env chk now req st))))
              = transactions (snd (stripe_webhook env chk now req st))) \<and>
         ((\<forall>t. chk t = chk (unstamp t)) \<longrightarrow>
            map unstamp (transactions
                (snd (stripe_webhook env chk now' req (snd (stripe_webhook env chk now req st)))))
              = map unstamp (transactions (snd (stripe_webhook env chk now req st)))) \<and>
         fees (snd (stripe_webhook env chk now' req (snd (stripe_webhook env chk now req st))))
           = fees st \<and>
         wallets (snd (stripe_webhook env chk now' req (snd (stripe_webhook env chk now req st))))
           = wallets st \<and>
         activity_logs (snd (stripe_webhook env chk now req st))
           = activity_logs st @ [webhook_log ev] \<and>
         activity_logs (snd (stripe_webhook env chk now' req (snd (stripe_webhook env chk now req st))))
           = activity_logs st @ [webhook_log ev, webhook_log ev] \<and>
         (\<forall>T. event_status (ev_type ev) = Some T \<and>
              fst (process_event chk now' ev
                     (transactions (snd (stripe_webhook env chk now req st)))) = False
            \<longrightarrow> map status (transactions
                    (snd (stripe_webhook env chk now' req (snd (stripe_webhook env chk now req st)))))
                  = map (\<lambda>t. if gateway_transaction_id t = event_ref ev then T else status t)
                      (transactions st)) \<and>
         (ev_type ev = ''payment_intent.succeeded'' \<and>
              fst (process_event chk now' ev
                     (transactions (snd (stripe_webhook env chk now req st)))) = False
            \<longrightarrow> map settled_at (transactions
                    (snd (stripe_webhook env chk now' req (snd (stripe_webhook env chk now req st)))))
                  = map (\<lambda>t. if gateway_transaction_id t = obj_id (ev_object ev)
                              then Some now' else settled_at t)
                      (transactions st)) \<and>
         (ev_type ev = ''charge.refunded'' \<and>
              fst (process_event chk now' ev
                     (transactions (snd (stripe_webhook env chk now req st)))) = False
            \<longrightarrow> map refunded_at (transactions
                    (snd (stripe_webhook env chk now' req (snd (stripe_webhook env chk now req st)))))
                  = map (\<lambda>t. if gateway_transaction_id t = obj_payment_intent (ev_object ev)
                              then Some now' else refunded_at t)
                      (transactions st))"
proof -
  let ?rows1 = "snd (process_event chk now ev (transactions st))"
  let ?st1 = "st\<lparr>transactions := ?rows1,
                 activity_logs := activity_logs st @ [webhook_log ev]\<rparr>"
  have first: "stripe_webhook env chk now req st =
      (\<lparr>resp_status = 200, resp_body = Received\<rparr>, ?st1)"
    using assms by (rule webhook_accepted)
  have cfg1: "stripe_config ?st1 = Some cfg"
    using assms(2) by (simp add: stripe_config_def)
  have second: "stripe_webhook env chk n req ?st1 =
      (\<lparr>resp_status = 200, resp_body = Received\<rparr>,
       ?st1\<lparr>transactions := snd (process_event chk n ev (transactions ?st1)),
            activity_logs := activity_logs ?st1 @ [webhook_log ev]\<rparr>)" for n
    using assms(1) cfg1 assms(3,4) by (rule webhook_accepted)
  have general: "fst (stripe_webhook env chk now' req (snd (stripe_webhook env chk now req st)))
           = fst (stripe_webhook env chk now req st) \<and>
         resp_status (fst (stripe_webhook env chk now req st)) = 200 \<and>
         (now' = now \<longrightarrow>
            transactions (snd (stripe_webhook env chk now' req (snd (stripe_webhook env chk now req st))))
              = transactions (snd (stripe_webhook env chk now req st))) \<and>
         ((\<forall>t. chk t = chk (unstamp t)) \<longrightarrow>
            map unstamp (transactions
                (snd (stripe_webhook env chk now' req (snd (stripe_webhook env chk now req st)))))
              = map unstamp (transactions (snd (stripe_webhook env chk now req st)))) \<and>
         fees (snd (stripe_webhook env chk now' req (snd (stripe_webhook env chk now req st))))
           = fees st \<and>
         wallets (snd (stripe_webhook env chk now' req (snd (stripe_webhook env chk now req st))))
           = wallets st \<and>
         activity_logs (snd (stripe_webhook env chk now req st))
           = activity_logs st @ [webhook_log ev] \<and>
         activity_logs (snd (stripe_webhook env chk now' req (snd (stripe_webhook env chk now req st))))
           = activity_logs st @ [webhook_log ev, webhook_log ev]"
    by (simp add: first second process_event_twice_same process_event_twice_unstamped)
  have rows2: "transactions (snd (stripe_webhook env chk now' req
        (snd (stripe_webhook env chk now req st)))) = snd (process_event chk now' ev ?rows1)"
    by (simp add: first second)
  have rows1: "transactions (snd (stripe_webhook env chk now req st)) = ?rows1"
    by (simp add: first)
  have status: "map status (snd (process_event chk now' ev ?rows1))
      = map (\<lambda>t. if gateway_transaction_id t = event_ref ev then T else status t)
          (transactions st)"
    if "event_status (ev_type ev) = Some T" "fst (process_event chk now' ev ?rows1) = False" for T
    using that by (intro process_event_then_column [where f = status and c = T])
      (simp_all add: event_patch_status)
  have settled: "map settled_at (snd (process_event chk now' ev ?rows1))
      = map (\<lambda>t. if gateway_transaction_id t = obj_id (ev_object ev)
                  then Some now' else settled_at t) (transactions st)"
    if ty: "ev_type ev = ''payment_intent.succeeded''"
      and acc: "fst (process_event chk now' ev ?rows1) = False"
  proof -
    from ty have ref: "event_ref ev = obj_id (ev_object ev)"
      and handled: "event_status (ev_type ev) \<noteq> None"
      and col: "\<And>t. settled_at (event_patch now' ev t) = Some now'"
      by (simp_all add: event_ref_def event_status_def event_patch_def)
    from process_event_then_column [where f = settled_at and c = "Some now'", OF handled acc col]
    show ?thesis by (simp add: ref)
  qed
  have refunded: "map refunded_at (snd (process_event chk now' ev ?rows1))
      = map (\<lambda>t. if gateway_transaction_id t = obj_payment_intent (ev_object ev)
                  then Some now' else refunded_at t) (transactions st)"
    if ty: "ev_type ev = ''charge.refunded''"
      and acc: "fst (process_event chk now' ev ?rows1) = False"
  proof -
    from ty have ref: "event_ref ev = obj_payment_intent (ev_object ev)"
      and handled: "event_status (ev_type ev) \<noteq> None"
      and col: "\<And>t. refunded_at (event_patch now' ev t) = Some now'"
      by (simp_all add: event_ref_def event_status_def event_patch_def)
    from process_event_then_column [where f = refunded_at and c = "Some now'", OF handled acc col]
    show ?thesis by (simp add: ref)
  qed
  from general status settled refunded show ?thesis
    unfolding rows2 rows1 by blast
qed

text \<open>
  C3, instances: a verified \<open>charge.refunded\<close> event delivered at times 7 and 8 is answered
  200 the second time, leaves the transaction \<open>refunded\<close> with \<open>refunded_at\<close> 8 and leaves two
  log rows; a verified \<open>payment_intent.succeeded\<close> event delivered at times 7 and 8, on a
  table that admits the status \<open>paid\<close>, leaves \<open>settled_at\<close> 8.
\<close>

theorem redelivery_reapplies_event_witness:
  "receive_event ex_env (ex_config (Some ''whsec'')) (ex_request (Some ''valid'') ''charge.refunded'')
     = Inr (ex_event ''charge.refunded'') \<and>
   transactions_check (ex_transaction ''pending'')
     = transactions_check (unstamp (ex_transaction ''pending'')) \<and>
   event_status (ev_type (ex_event ''charge.refunded'')) = Some ''refunded'' \<and>
   fst (process_event transactions_check 8 (ex_event ''charge.refunded'')
     (transactions (snd (stripe_webhook ex_env transactions_check 7
         (ex_request (Some ''valid'') ''charge.refunded'') (ex_store (Some ''whsec'') ''pending''))))) = False \<and>
   resp_status (fst (stripe_webhook ex_env transactions_check 8
      (ex_request (Some ''valid'') ''charge.refunded'')
      (snd (stripe_webhook ex_env transactions_check 7
         (ex_request (Some ''valid'') ''charge.refunded'') (ex_store (Some ''whsec'') ''pending''))))) = 200 \<and>
   map status (transactions (snd (stripe_webhook ex_env transactions_check 8
      (ex_request (Some ''valid'') ''charge.refunded'')
      (snd (stripe_webhook ex_env transactions_check 7
         (ex_request (Some ''valid'') ''charge.refunded'') (ex_store (Some ''whsec'') ''pending''))))))
     = [''refunded''] \<and>
   map refunded_at (transactions (snd (stripe_webhook ex_env transactions_check 8
      (ex_request (Some ''valid'') ''charge.refunded'')
      (snd (stripe_webhook ex_env transactions_check 7
         (ex_request (Some ''valid'') ''charge.refunded'') (ex_store (Some ''whsec'') ''pending''))))))
     = [Some 8] \<and>
   length (activity_logs (snd (stripe_webhook ex_env transactions_check 8
      (ex_request (Some ''valid'') ''charge.refunded'')
      (snd (stripe_webhook ex_env transactions_check 7
         (ex_request (Some ''valid'') ''charge.refunded'') (ex_store (Some ''whsec'') ''pending'')))))) = 2 \<and>
   ev_type (ex_event ''payment_intent.succeeded'') = ''payment_intent.succeeded'' \<and>
   fst (process_event (\<lambda>t. True) 8 (ex_event ''payment_intent.succeeded'')
     (transactions (snd (stripe_webhook ex_env (\<lambda>t. True) 7
         (ex_request (Some ''valid'') ''payment_intent.succeeded'')
         (ex_store (Some ''whsec'') ''pending''))))) = False \<and>
   map settled_at (transactions (snd (stripe_webhook ex_env (\<lambda>t. True) 8
      (ex_request (Some ''valid'') ''payment_intent.succeeded'')
      (snd (stripe_webhook ex_env (\<lambda>t. True) 7
         (ex_request (Some ''valid'') ''payment_intent.succeeded'')
         (ex_store (Some ''whsec'') ''pending''))))))
     = [Some 8]"
proof -
  let ?req = "ex_request (Some ''valid'') ''charge.refunded''"
  let ?req' = "ex_request (Some ''valid'') ''payment_intent.succeeded''"
  let ?st = "ex_store (Some ''whsec'') ''pending''"
  have h1: "req_method ?req \<noteq> ''OPTIONS''" "req_method ?req' \<noteq> ''OPTIONS''"
    by (simp_all add: ex_defs)
  have h2: "stripe_config ?st = Some (ex_config (Some ''whsec''))"
    by (simp add: ex_defs stripe_config_def single_row_def)
  have h3: "truthy (api_key_secret (ex_config (Some ''whsec'')))"
    by (simp add: ex_defs truthy_def)
  have h4: "receive_event ex_env (ex_config (Some ''whsec'')) ?req = Inr (ex_event ''charge.refunded'')"
    "receive_event ex_env (ex_config (Some ''whsec'')) ?req'
       = Inr (ex_event ''payment_intent.succeeded'')"
    by (simp_all add: ex_defs receive_event_def truthy_def)
  have h5: "\<forall>t. transactions_check t = transactions_check (unstamp t)"
    by (simp add: transactions_check_def unstamp_def)
  from redelivery_reapplies_event [OF h1(1) h2 h3 h4(1), of transactions_check 8 7]
    redelivery_reapplies_event [OF h1(2) h2 h3 h4(2), of "\<lambda>t. True" 8 7] h4 h5
  show ?thesis
    by (simp add: ex_defs handler_defs transactions_check_def event_status_def)
qed

text \<open>
  C3 as stated (the second processing leaves the store as the first left it, with one dedup
  record, without touching the ledger) fails: after the second delivery of the same
  \<open>charge.refunded\<close> event the store differs from the store after the first, the
  transaction's \<open>refunded_at\<close> has moved from 7 to 8, and two \<open>activity_logs\<close> rows carry the
  event id \<open>evt_1\<close>.
\<close>

theorem redelivery_changes_store:
  "snd (stripe_webhook ex_env transactions_check 8
      (ex_request (Some ''valid'') ''charge.refunded'')
      (snd (stripe_webhook ex_env transactions_check 7
         (ex_request (Some ''valid'') ''charge.refunded'') (ex_store (Some ''whsec'') ''pending''))))
     \<noteq> snd (stripe_webhook ex_env transactions_check 7
         (ex_request (Some ''valid'') ''charge.refunded'') (ex_store (Some ''whsec'') ''pending'')) \<and>
   map refunded_at (transactions (snd (stripe_webhook ex_env transactions_check 7
         (ex_request (Some ''valid'') ''charge.refunded'') (ex_store (Some ''whsec'') ''pending''))))
     = [Some 7] \<and>
   map refunded_at (transactions (snd (stripe_webhook ex_env transactions_check 8
      (ex_request (Some ''valid'') ''charge.refunded'')
      (snd (stripe_webhook ex_env transactions_check 7
         (ex_request (Some ''valid'') ''charge.refunded'') (ex_store (Some ''whsec'') ''pending''))))))
     = [Some 8] \<and>
   map details_event_id (activity_logs (snd (stripe_webhook ex_env transactions_check 8
      (ex_request (Some ''valid'') ''charge.refunded'')
      (snd (stripe_webhook ex_env transactions_check 7
         (ex_request (Some ''valid'') ''charge.refunded'') (ex_store (Some ''whsec'') ''pending''))))))
     = [''evt_1'', ''evt_1'']"
  by (simp add: ex_defs handler_defs transactions_check_def)

subsection \<open>Entering the paid status\<close>

text \<open>
  C4, as the handler implements it. No request makes the webhook handler write a fee
  record or change a wallet, and it never changes \<open>completed_at\<close>, \<open>fee_amount\<close>,
  \<open>net_amount\<close> or \<open>amount\<close> of a transaction. On an accepted \<open>payment_intent.succeeded\<close>
  event whose update the storage layer accepts, the transactions with the intent's id get
  status \<open>paid\<close>, the intent as \<open>gateway_response\<close> and the current time as \<open>settled_at\<close>;
  nothing else is written.
\<close>

theorem paid_writes_status_only:
  "fees (snd (stripe_webhook env chk now req st)) = fees st \<and>
   wallets (snd (stripe_webhook env chk now req st)) = wallets st \<and>
   map completed_at (transactions (snd (stripe_webhook env chk now req st)))
     = map completed_at (transactions st) \<and>
   map fee_amount (transactions (snd (stripe_webhook env chk now req st)))
     = map fee_amount (transactions st) \<and>
   map net_amount (transactions (snd (stripe_webhook env chk now req st)))
     = map net_amount (transactions st) \<and>
   map amount (transactions (snd (stripe_webhook env chk now req st)))
     = map amount (transactions st) \<and>
   (\<forall>cfg ev rows'. req_method req \<noteq> ''OPTIONS'' \<and> stripe_config st = Some cfg \<and>
        truthy (api_key_secret cfg) \<and> receive_event env cfg req = Inr ev \<and>
        ev_type ev = ''payment_intent.succeeded'' \<and>
        process_event chk now ev (transactions st) = (False, rows')
      \<longrightarrow> transactions (snd (stripe_webhook env chk now req st))
            = map (\<lambda>t. if gateway_transaction_id t = obj_id (ev_object ev)
                        then t\<lparr>status := ''paid'', gateway_response := Some (ev_object ev),
                               settled_at := Some now\<rparr>
                        else t) (transactions st))"
proof (intro conjI allI impI)
  show "fees (snd (stripe_webhook env chk now req st)) = fees st"
    by (simp add: stripe_webhook_def split: option.splits sum.splits)
  show "wallets (snd (stripe_webhook env chk now req st)) = wallets st"
    by (simp add: stripe_webhook_def split: option.splits sum.splits)
  show "map completed_at (transactions (snd (stripe_webhook env chk now req st)))
     = map completed_at (transactions st)"
    by (rule webhook_column) (simp add: event_patch_def)
  show "map fee_amount (transactions (snd (stripe_webhook env chk now req st)))
     = map fee_amount (transactions st)"
    by (rule webhook_column) (simp add: event_patch_def)
  show "map net_amount (transactions (snd (stripe_webhook env chk now req st)))
     = map net_amount (transactions st)"
    by (rule webhook_column) (simp add: event_patch_def)
  show "map amount (transactions (snd (stripe_webhook env chk now req st)))
     = map amount (transactions st)"
    by (rule webhook_column) (simp add: event_patch_def)
next
  fix cfg ev rows'
  assume a: "req_method req \<noteq> ''OPTIONS'' \<and> stripe_config st = Some cfg \<and>
        truthy (api_key_secret cfg) \<and> receive_event env cfg req = Inr ev \<and>
        ev_type ev = ''payment_intent.succeeded'' \<and>
        process_event chk now ev (transactions st) = (False, rows')"
  then have u: "update_transactions chk
          (\<lambda>t. t\<lparr>status := ''paid'', gateway_response := Some (ev_object ev),
                  settled_at := Some now\<rparr>)
          (obj_id (ev_object ev)) (transactions st) = (False, rows')"
    by (clarsimp simp: process_event_def Let_def)
  from a have "transactions (snd (stripe_webhook env chk now req st)) = rows'"
    by (clarsimp simp: webhook_accepted)
  with update_accepted [OF u]
  show "transactions (snd (stripe_webhook env chk now req st))
            = map (\<lambda>t. if gateway_transaction_id t = obj_id (ev_object ev)
                        then t\<lparr>status := ''paid'', gateway_response := Some (ev_object ev),
                               settled_at := Some now\<rparr>
                        else t) (transactions st)"
    by simp
qed

text \<open>
  C4, an instance: a \<open>processing\<close> transaction receiving \<open>payment_intent.succeeded\<close>, on a
  table that admits the status \<open>paid\<close>.
\<close>

theorem paid_writes_status_only_witness:
  "receive_event ex_env (ex_config (Some ''whsec''))
       (ex_request (Some ''valid'') ''payment_intent.succeeded'')
     = Inr (ex_event ''payment_intent.succeeded'') \<and>
   fst (process_event (\<lambda>t. True) 7 (ex_event ''payment_intent.succeeded'')
       (transactions (ex_store (Some ''whsec'') ''processing''))) = False \<and>
   transactions (snd (stripe_webhook ex_env (\<lambda>t. True) 7
       (ex_request (Some ''valid'') ''payment_intent.succeeded'')
       (ex_store (Some ''whsec'') ''processing'')))
     = [(ex_transaction ''paid'')\<lparr>gateway_response := Some ex_object, settled_at := Some 7\<rparr>] \<and>
   fees (snd (stripe_webhook ex_env (\<lambda>t. True) 7
       (ex_request (Some ''valid'') ''payment_intent.succeeded'')
       (ex_store (Some ''whsec'') ''processing''))) = []"
  using paid_writes_status_only [of ex_env "\<lambda>t. True" 7
      "ex_request (Some ''valid'') ''payment_intent.succeeded''"
      "ex_store (Some ''whsec'') ''processing''"]
  by (simp add: ex_defs handler_defs)

text \<open>
  C4 as stated (a fee record, a wallet credit and \<open>completed_at\<close> on entering \<open>paid\<close>) fails:
  a transaction of amount 10000 enters \<open>paid\<close> while the fee table stays empty, the
  wallet's pending balance stays 0, \<open>completed_at\<close> and \<open>net_amount\<close> stay null and
  \<open>fee_amount\<close> stays 0.
\<close>

theorem paid_without_fee_or_wallet_credit:
  "map amount (transactions (ex_store (Some ''whsec'') ''processing'')) = [10000] \<and>
   map status (transactions (snd (stripe_webhook ex_env (\<lambda>t. True) 7
       (ex_request (Some ''valid'') ''payment_intent.succeeded'')
       (ex_store (Some ''whsec'') ''processing'')))) = [''paid''] \<and>
   fees (snd (stripe_webhook ex_env (\<lambda>t. True) 7
       (ex_request (Some ''valid'') ''payment_intent.succeeded'')
       (ex_store (Some ''whsec'') ''processing''))) = [] \<and>
   map pending_balance (wallets (snd (stripe_webhook ex_env (\<lambda>t. True) 7
       (ex_request (Some ''valid'') ''payment_intent.succeeded'')
       (ex_store (Some ''whsec'') ''processing'')))) = [0] \<and>
   map completed_at (transactions (snd (stripe_webhook ex_env (\<lambda>t. True) 7
       (ex_request (Some ''valid'') ''payment_intent.succeeded'')
       (ex_store (Some ''whsec'') ''processing'')))) = [None] \<and>
   map fee_amount (transactions (snd (stripe_webhook ex_env (\<lambda>t. True) 7
       (ex_request (Some ''valid'') ''payment_intent.succeeded'')
       (ex_store (Some ''whsec'') ''processing'')))) = [0] \<and>
   map net_amount (transactions (snd (stripe_webhook ex_env (\<lambda>t. True) 7
       (ex_request (Some ''valid'') ''payment_intent.succeeded'')
       (ex_store (Some ''whsec'') ''processing'')))) = [None]"
  by (simp add: ex_defs handler_defs)

subsection \<open>Statuses and the CHECK constraint\<close>

text \<open>
  C5 at concrete inputs. The handlers write statuses the CHECK constraint of the
  \<open>transactions\<close> table does not permit. The webhook writes \<open>paid\<close> on
  \<open>payment_intent.succeeded\<close> and \<open>chargeback\<close> on \<open>charge.dispute.created\<close>; under the
  constraint both updates are rejected and the transaction stays \<open>pending\<close>. The
  create-payment handler maps the provider status \<open>succeeded\<close> to \<open>paid\<close>; under the
  constraint the insert is rejected, the response is 400 and no row is added.
\<close>

theorem statuses_outside_check:
  "map status (snd (process_event (\<lambda>t. True) 7 (ex_event ''payment_intent.succeeded'')
       [ex_transaction ''pending''])) = [''paid''] \<and>
   map status (snd (process_event (\<lambda>t. True) 7 (ex_event ''charge.dispute.created'')
       [ex_transaction ''pending''])) = [''chargeback''] \<and>
   transactions_check (ex_transaction ''pending'') \<and>
   \<not> transactions_check ((ex_transaction ''pending'')\<lparr>status := ''paid''\<rparr>) \<and>
   \<not> transactions_check ((ex_transaction ''pending'')\<lparr>status := ''chargeback''\<rparr>) \<and>
   process_event transactions_check 7 (ex_event ''payment_intent.succeeded'')
       [ex_transaction ''pending''] = (True, [ex_transaction ''pending'']) \<and>
   process_event transactions_check 7 (ex_event ''charge.dispute.created'')
       [ex_transaction ''pending''] = (True, [ex_transaction ''pending'']) \<and>
   map status (transactions (snd (stripe_webhook ex_env transactions_check 7
       (ex_request (Some ''valid'') ''payment_intent.succeeded'')
       (ex_store (Some ''whsec'') ''pending'')))) = [''pending''] \<and>
   transactionStatus ''succeeded'' = ''paid'' \<and>
   resp_status (fst (create_payment (ex_payment_env ''succeeded'')
      transactions_check ''tx_2'' 5 (ex_payment_request 10) (ex_store None ''pending''))) = 400 \<and>
   transactions (snd (create_payment (ex_payment_env ''succeeded'')
      transactions_check ''tx_2'' 5 (ex_payment_request 10) (ex_store None ''pending'')))
     = transactions (ex_store None ''pending'')"
  by (simp add: ex_defs handler_defs payment_defs transactions_check_def)

subsection \<open>Persisted amounts\<close>




subsection \<open>Response statuses of the webhook\<close>

text \<open>
  C7, as the handler implements it. The webhook endpoint answers with 200, 400 or 500 and
  nothing else. It answers 200 whenever it obtains the event, that is, when the presented
  signature verifies against the configured secret, or when no webhook secret is
  configured and the body parses; this holds whatever the event type, whether or not a
  transaction matches, and also when the storage layer rejects the update, whose error is
  only logged and which leaves the transactions unchanged. It answers 400 when a presented
  signature fails verification against the configured secret. It answers 500 when the
  configuration row or the API key is missing, and when no webhook secret is configured and
  the body cannot be read as an event. A request delivered again gets the status it got
  the first time.
\<close>

theorem webhook_response_status:
  "resp_status (fst (stripe_webhook env chk now req st)) \<in> {200, 400, 500} \<and>
   (\<forall>cfg ev. req_method req \<noteq> ''OPTIONS'' \<and> stripe_config st = Some cfg \<and>
        truthy (api_key_secret cfg) \<and>
        (truthy (webhook_secret cfg) \<and> truthy (stripe_signature req) \<and>
           constructEvent env (req_body req) (the (stripe_signature req))
             (the (webhook_secret cfg)) = Some ev
         \<or> \<not> truthy (webhook_secret cfg) \<and> json_parse env (req_body req) = Inr ev)
      \<longrightarrow> resp_status (fst (stripe_webhook env chk now req st)) = 200 \<and>
          (fst (process_event chk now ev (transactions st)) = True
             \<longrightarrow> transactions (snd (stripe_webhook env chk now req st)) = transactions st)) \<and>
   (\<forall>cfg. req_method req \<noteq> ''OPTIONS'' \<and> stripe_config st = Some cfg \<and>
        truthy (api_key_secret cfg) \<and> truthy (webhook_secret cfg) \<and>
        truthy (stripe_signature req) \<and>
        constructEvent env (req_body req) (the (stripe_signature req))
          (the (webhook_secret cfg)) = None
      \<longrightarrow> resp_status (fst (stripe_webhook env chk now req st)) = 400) \<and>
   (req_method req \<noteq> ''OPTIONS'' \<and>
      (stripe_config st = None \<or>
       (\<exists>cfg. stripe_config st = Some cfg \<and> \<not> truthy (api_key_secret cfg)))
      \<longrightarrow> resp_status (fst (stripe_webhook env chk now req st)) = 500) \<and>
   (\<forall>cfg msg. req_method req \<noteq> ''OPTIONS'' \<and> stripe_config st = Some cfg \<and>
        truthy (api_key_secret cfg) \<and> \<not> truthy (webhook_secret cfg) \<and>
        json_parse env (req_body req) = Inl msg
      \<longrightarrow> resp_status (fst (stripe_webhook env chk now req st)) = 500) \<and>
   resp_status (fst (stripe_webhook env chk now' req (snd (stripe_webhook env chk now req st))))
     = resp_status (fst (stripe_webhook env chk now req st))"
proof (intro conjI allI impI)
  show "resp_status (fst (stripe_webhook env chk now req st)) \<in> {200, 400, 500}"
    by (rule webhook_status_set)
next
  fix cfg ev
  assume a: "req_method req \<noteq> ''OPTIONS'' \<and> stripe_config st = Some cfg \<and>
        truthy (api_key_secret cfg) \<and>
        (truthy (webhook_secret cfg) \<and> truthy (stripe_signature req) \<and>
           constructEvent env (req_body req) (the (stripe_signature req))
             (the (webhook_secret cfg)) = Some ev
         \<or> \<not> truthy (webhook_secret cfg) \<and> json_parse env (req_body req) = Inr ev)"
  then have r: "receive_event env cfg req = Inr ev"
    by (auto simp: receive_event_def)
  from a r have run: "stripe_webhook env chk now req st =
     (\<lparr>resp_status = 200, resp_body = Received\<rparr>,
      st\<lparr>transactions := snd (process_event chk now ev (transactions st)),
         activity_logs := activity_logs st @ [webhook_log ev]\<rparr>)"
    by (simp add: webhook_accepted)
  show "resp_status (fst (stripe_webhook env chk now req st)) = 200"
    by (simp add: run)
  assume "fst (process_event chk now ev (transactions st)) = True"
  then have "snd (process_event chk now ev (transactions st)) = transactions st"
    by (simp add: process_event_rejected)
  then show "transactions (snd (stripe_webhook env chk now req st)) = transactions st"
    by (simp add: run)
next
  fix cfg
  assume a: "req_method req \<noteq> ''OPTIONS'' \<and> stripe_config st = Some cfg \<and>
        truthy (api_key_secret cfg) \<and> truthy (webhook_secret cfg) \<and>
        truthy (stripe_signature req) \<and>
        constructEvent env (req_body req) (the (stripe_signature req))
          (the (webhook_secret cfg)) = None"
  then have "receive_event env cfg req =
      Inl \<lparr>resp_status = 400, resp_body = Error_message ''Invalid signature''\<rparr>"
    by (simp add: receive_event_def)
  with a show "resp_status (fst (stripe_webhook env chk now req st)) = 400"
    by (simp add: webhook_refused)
next
  assume "req_method req \<noteq> ''OPTIONS'' \<and>
      (stripe_config st = None \<or>
       (\<exists>cfg. stripe_config st = Some cfg \<and> \<not> truthy (api_key_secret cfg)))"
  then show "resp_status (fst (stripe_webhook env chk now req st)) = 500"
    by (simp add: webhook_not_configured internal_error_def)
next
  fix cfg msg
  assume a: "req_method req \<noteq> ''OPTIONS'' \<and> stripe_config st = Some cfg \<and>
        truthy (api_key_secret cfg) \<and> \<not> truthy (webhook_secret cfg) \<and>
        json_parse env (req_body req) = Inl msg"
  then have "receive_event env cfg req = Inl (internal_error msg)"
    by (auto simp: receive_event_def)
  with a show "resp_status (fst (stripe_webhook env chk now req st)) = 500"
    by (simp add: webhook_refused internal_error_def)
next
  show "resp_status (fst (stripe_webhook env chk now' req (snd (stripe_webhook env chk now req st))))
     = resp_status (fst (stripe_webhook env chk now req st))"
    by (simp add: stripe_webhook_def stripe_config_def split: option.splits sum.splits)
qed

text \<open>
  C7, instances: a verified event whose update the storage layer rejects (200, transactions
  unchanged), an event parsed with no secret configured (200), a forged signature (400),
  an unreadable body with no secret configured (500) and a missing configuration (500).
\<close>

theorem webhook_response_status_witness:
  "stripe_config (ex_store (Some ''whsec'') ''pending'') = Some (ex_config (Some ''whsec'')) \<and>
   constructEvent ex_env ''payment_intent.succeeded'' ''valid'' ''whsec''
     = Some (ex_event ''payment_intent.succeeded'') \<and>
   fst (process_event transactions_check 7 (ex_event ''payment_intent.succeeded'')
     (transactions (ex_store (Some ''whsec'') ''pending''))) = True \<and>
   resp_status (fst (stripe_webhook ex_env transactions_check 7
      (ex_request (Some ''valid'') ''payment_intent.succeeded'')
      (ex_store (Some ''whsec'') ''pending''))) = 200 \<and>
   transactions (snd (stripe_webhook ex_env transactions_check 7
      (ex_request (Some ''valid'') ''payment_intent.succeeded'')
      (ex_store (Some ''whsec'') ''pending''))) = transactions (ex_store (Some ''whsec'') ''pending'') \<and>
   \<not> truthy (webhook_secret (ex_config None)) \<and>
   json_parse ex_env ''charge.refunded'' = Inr (ex_event ''charge.refunded'') \<and>
   resp_status (fst (stripe_webhook ex_env transactions_check 7
      (ex_request None ''charge.refunded'') (ex_store None ''pending''))) = 200 \<and>
   constructEvent ex_env ''charge.refunded'' ''forged'' ''whsec'' = None \<and>
   resp_status (fst (stripe_webhook ex_env transactions_check 7
      (ex_request (Some ''forged'') ''charge.refunded'') (ex_store (Some ''whsec'') ''pending''))) = 400 \<and>
   json_parse ex_env [] = Inl ''Unexpected end of JSON input'' \<and>
   resp_status (fst (stripe_webhook ex_env transactions_check 7
      (ex_request None []) (ex_store None ''pending''))) = 500 \<and>
   stripe_config ((ex_store (Some ''whsec'') ''pending'')\<lparr>psp_configurations := []\<rparr>) = None \<and>
   resp_status (fst (stripe_webhook ex_env transactions_check 7
      (ex_request (Some ''valid'') ''charge.refunded'')
      ((ex_store (Some ''whsec'') ''pending'')\<lparr>psp_configurations := []\<rparr>))) = 500"
  using webhook_response_status [of ex_env transactions_check 7
      "ex_request (Some ''valid'') ''payment_intent.succeeded''"
      "ex_store (Some ''whsec'') ''pending''" 8]
    webhook_response_status [of ex_env transactions_check 7
      "ex_request None ''charge.refunded''" "ex_store None ''pending''" 8]
    webhook_response_status [of ex_env transactions_check 7
      "ex_request (Some ''forged'') ''charge.refunded''" "ex_store (Some ''whsec'') ''pending''" 8]
    webhook_response_status [of ex_env transactions_check 7
      "ex_request None []" "ex_store None ''pending''" 8]
    webhook_response_status [of ex_env transactions_check 7
      "ex_request (Some ''valid'') ''charge.refunded''"
      "(ex_store (Some ''whsec'') ''pending'')\<lparr>psp_configurations := []\<rparr>" 8]
  by (simp add: ex_defs handler_defs transactions_check_def)

text \<open>
  C7 as stated (500 on an internal failure, 400 on a signature failure) fails. The storage
  layer rejects the update of a verified \<open>payment_intent.succeeded\<close> event, the transaction
  stays \<open>pending\<close>, and the answer is 200, not 500. A request that carries no signature, sent
  to an endpoint whose webhook secret is configured, is answered 200, not 400, and its event
  is applied.
\<close>

theorem storage_error_and_unsigned_request_answered_200:
  "fst (process_event transactions_check 7 (ex_event ''payment_intent.succeeded'')
     (transactions (ex_store (Some ''whsec'') ''pending''))) = True \<and>
   map status (transactions (snd (stripe_webhook ex_env transactions_check 7
      (ex_request (Some ''valid'') ''payment_intent.succeeded'')
      (ex_store (Some ''whsec'') ''pending'')))) = [''pending''] \<and>
   resp_status (fst (stripe_webhook ex_env transactions_check 7
      (ex_request (Some ''valid'') ''payment_intent.succeeded'')
      (ex_store (Some ''whsec'') ''pending''))) = 200 \<and>
   webhook_secret (ex_config (Some ''whsec'')) = Some ''whsec'' \<and>
   stripe_signature (ex_request None ''payment_intent.payment_failed'') = None \<and>
   resp_status (fst (stripe_webhook ex_env transactions_check 7
      (ex_request None ''payment_intent.payment_failed'')
      (ex_store (Some ''whsec'') ''pending''))) = 200 \<and>
   map status (transactions (snd (stripe_webhook ex_env transactions_check 7
      (ex_request None ''payment_intent.payment_failed'')
      (ex_store (Some ''whsec'') ''pending'')))) = [''failed'']"
  by (simp add: ex_defs handler_defs transactions_check_def)

subsection \<open>Unknown transactions\<close>

text \<open>
  C8. When the reference of an accepted event matches no transaction, the handler answers
  200 and leaves every transaction, fee and wallet record as it was.
\<close>

theorem unknown_transaction_acknowledged:
  assumes "req_method req \<noteq> ''OPTIONS''" and "stripe_config st = Some cfg"
    and "truthy (api_key_secret cfg)" and "receive_event env cfg req = Inr ev"
    and "matching (event_ref ev) (transactions st) = []"
  shows "resp_status (fst (stripe_webhook env chk now req st)) = 200 \<and>
         transactions (snd (stripe_webhook env chk now req st)) = transactions st \<and>
         fees (snd (stripe_webhook env chk now req st)) = fees st \<and>
         wallets (snd (stripe_webhook env chk now req st)) = wallets st"
  using assms by (simp add: webhook_accepted process_event_no_match)

text \<open>
  C8, an instance: a verified \<open>payment_intent.succeeded\<close> event for \<open>pi_1\<close> when the only
  transaction has the reference \<open>pi_other\<close>.
\<close>

theorem unknown_transaction_acknowledged_witness:
  "req_method (ex_request (Some ''valid'') ''payment_intent.succeeded'') \<noteq> ''OPTIONS'' \<and>
   stripe_config ((ex_store (Some ''whsec'') ''pending'')\<lparr>transactions :=
       [(ex_transaction ''pending'')\<lparr>gateway_transaction_id := ''pi_other''\<rparr>]\<rparr>)
     = Some (ex_config (Some ''whsec'')) \<and>
   truthy (api_key_secret (ex_config (Some ''whsec''))) \<and>
   receive_event ex_env (ex_config (Some ''whsec''))
       (ex_request (Some ''valid'') ''payment_intent.succeeded'')
     = Inr (ex_event ''payment_intent.succeeded'') \<and>
   matching (event_ref (ex_event ''payment_intent.succeeded''))
       [(ex_transaction ''pending'')\<lparr>gateway_transaction_id := ''pi_other''\<rparr>] = [] \<and>
   resp_status (fst (stripe_webhook ex_env transactions_check 7
       (ex_request (Some ''valid'') ''payment_intent.succeeded'')
       ((ex_store (Some ''whsec'') ''pending'')\<lparr>transactions :=
          [(ex_transaction ''pending'')\<lparr>gateway_transaction_id := ''pi_other''\<rparr>]\<rparr>))) = 200 \<and>
   transactions (snd (stripe_webhook ex_env transactions_check 7
       (ex_request (Some ''valid'') ''payment_intent.succeeded'')
       ((ex_store (Some ''whsec'') ''pending'')\<lparr>transactions :=
          [(ex_transaction ''pending'')\<lparr>gateway_transaction_id := ''pi_other''\<rparr>]\<rparr>)))
     = [(ex_transaction ''pending'')\<lparr>gateway_transaction_id := ''pi_other''\<rparr>]"
proof -
  let ?req = "ex_request (Some ''valid'') ''payment_intent.succeeded''"
  let ?rows = "[(ex_transaction ''pending'')\<lparr>gateway_transaction_id := ''pi_other''\<rparr>]"
  let ?st = "(ex_store (Some ''whsec'') ''pending'')\<lparr>transactions := ?rows\<rparr>"
  have h1: "req_method ?req \<noteq> ''OPTIONS''" by (simp add: ex_defs)
  have h2: "stripe_config ?st = Some (ex_config (Some ''whsec''))"
    by (simp add: ex_defs stripe_config_def single_row_def)
  have h3: "truthy (api_key_secret (ex_config (Some ''whsec'')))"
    by (simp add: ex_defs truthy_def)
  have h4: "receive_event ex_env (ex_config (Some ''whsec'')) ?req
              = Inr (ex_event ''payment_intent.succeeded'')"
    by (simp add: ex_defs receive_event_def truthy_def)
  have h5: "matching (event_ref (ex_event ''payment_intent.succeeded'')) (transactions ?st) = []"
    by (simp add: ex_defs matching_def event_ref_def)
  from unknown_transaction_acknowledged [OF h1 h2 h3 h4 h5, of transactions_check 7]
    h1 h2 h3 h4 h5
  show ?thesis by simp
qed

subsection \<open>The provider status mapping\<close>

text \<open>
  C9. The mapping from provider payment-intent statuses to internal statuses is total, with
  default \<open>pending\<close>: \<open>succeeded\<close> gives \<open>paid\<close>, \<open>processing\<close> gives \<open>processing\<close>,
  \<open>requires_payment_method\<close> and \<open>requires_confirmation\<close> give \<open>pending\<close>, \<open>canceled\<close> gives
  \<open>cancelled\<close>, \<open>payment_failed\<close> gives \<open>failed\<close>, and every other provider status gives
  \<open>pending\<close>.
\<close>

theorem transactionStatus_table:
  "transactionStatus ''succeeded'' = ''paid'' \<and>
   transactionStatus ''processing'' = ''processing'' \<and>
   transactionStatus ''requires_payment_method'' = ''pending'' \<and>
   transactionStatus ''requires_confirmation'' = ''pending'' \<and>
   transactionStatus ''canceled'' = ''cancelled'' \<and>
   transactionStatus ''payment_failed'' = ''failed'' \<and>
   (\<forall>s. s \<notin> {''succeeded'', ''processing'', ''requires_payment_method'',
              ''requires_confirmation'', ''canceled'', ''payment_failed''}
        \<longrightarrow> transactionStatus s = ''pending'')"
  by (simp add: transactionStatus_def)

text \<open>
  C9, an instance: the provider status \<open>requires_action\<close> is none of the six and maps to
  \<open>pending\<close>.
\<close>

theorem transactionStatus_table_witness:
  "''requires_action'' \<notin> {''succeeded'', ''processing'', ''requires_payment_method'',
              ''requires_confirmation'', ''canceled'', ''payment_failed''}
   \<and> transactionStatus ''requires_action'' = ''pending''
   \<and> transactionStatus ''succeeded'' = ''paid''"
using transactionStatus_table by simp

subsection \<open>Outbound delivery with retries\<close>

text \<open>
  C10, on the dispatcher modelled from the spec. Under a policy that allows at least four
  attempts, an active endpoint that answers 500 to the first three attempts and 200 to the
  fourth ends delivered, with exactly four recorded attempts, numbered 1 to 4, issued at
  times that follow the backoff delays, which do not decrease. When the endpoint is
  deactivated after attempt 2 (active for attempts 1 and 2, which fail, and inactive when
  attempt 3 is due), only attempts 1 and 2 are recorded and the delivery is not delivered.
\<close>

theorem outbound_retry_delivery:
  "(4 \<le> max_attempts pol \<and> active 1 \<and> active 2 \<and> active 3 \<and> active 4 \<and>
      respond 1 = Some 500 \<and> respond 2 = Some 500 \<and> respond 3 = Some 500 \<and>
      respond 4 = Some 200
    \<longrightarrow> delivered (deliver pol active respond t0) \<and>
        attempts (deliver pol active respond t0) = 4 \<and>
        \<not> permanently_failed (deliver pol active respond t0) \<and>
        map attempt_no (history (deliver pol active respond t0)) = [1, 2, 3, 4] \<and>
        map attempt_response (history (deliver pol active respond t0))
          = [Some 500, Some 500, Some 500, Some 200] \<and>
        map issued_at (history (deliver pol active respond t0))
          = [t0, t0 + backoff_delay pol 1,
             t0 + backoff_delay pol 1 + backoff_delay pol 2,
             t0 + backoff_delay pol 1 + backoff_delay pol 2 + backoff_delay pol 3] \<and>
        backoff_delay pol 1 \<le> backoff_delay pol 2 \<and>
        backoff_delay pol 2 \<le> backoff_delay pol 3) \<and>
   (active 1 \<and> active 2 \<and> \<not> active 3 \<and> 2 \<le> max_attempts pol \<and>
      \<not> is_2xx (respond 1) \<and> \<not> is_2xx (respond 2)
    \<longrightarrow> map attempt_no (history (deliver pol active respond t0)) = [1, 2] \<and>
        attempts (deliver pol active respond t0) = 2 \<and>
        \<not> delivered (deliver pol active respond t0))"
proof (intro conjI impI)
  assume a: "4 \<le> max_attempts pol \<and> active 1 \<and> active 2 \<and> active 3 \<and> active 4 \<and>
      respond 1 = Some 500 \<and> respond 2 = Some 500 \<and> respond 3 = Some 500 \<and>
      respond 4 = Some 200"
  then have run: "deliver pol active respond t0 =
     \<lparr>history = [\<lparr>attempt_no = 1, issued_at = t0, attempt_response = Some 500\<rparr>,
                 \<lparr>attempt_no = 2, issued_at = t0 + backoff_delay pol 1,
                  attempt_response = Some 500\<rparr>,
                 \<lparr>attempt_no = 3, issued_at = t0 + backoff_delay pol 1 + backoff_delay pol 2,
                  attempt_response = Some 500\<rparr>,
                 \<lparr>attempt_no = 4,
                  issued_at = t0 + backoff_delay pol 1 + backoff_delay pol 2 + backoff_delay pol 3,
                  attempt_response = Some 200\<rparr>],
      attempts = 4, response_status = Some 200, delivered = True, permanently_failed = False\<rparr>"
    by (simp add: deliver_def dispatch_step is_2xx_def numeral_2_eq_2 [symmetric])
  show "delivered (deliver pol active respond t0)" by (simp add: run)
  show "attempts (deliver pol active respond t0) = 4" by (simp add: run)
  show "\<not> permanently_failed (deliver pol active respond t0)" by (simp add: run)
  show "map attempt_no (history (deliver pol active respond t0)) = [1, 2, 3, 4]"
    by (simp add: run)
  show "map attempt_response (history (deliver pol active respond t0))
          = [Some 500, Some 500, Some 500, Some 200]" by (simp add: run)
  show "map issued_at (history (deliver pol active respond t0))
          = [t0, t0 + backoff_delay pol 1,
             t0 + backoff_delay pol 1 + backoff_delay pol 2,
             t0 + backoff_delay pol 1 + backoff_delay pol 2 + backoff_delay pol 3]"
    by (simp add: run)
  show "backoff_delay pol 1 \<le> backoff_delay pol 2"
    by (auto simp: backoff_delay_def min_def)
  show "backoff_delay pol 2 \<le> backoff_delay pol 3"
    by (auto simp: backoff_delay_def min_def)
next
  assume a: "active 1 \<and> active 2 \<and> \<not> active 3 \<and> 2 \<le> max_attempts pol \<and>
      \<not> is_2xx (respond 1) \<and> \<not> is_2xx (respond 2)"
  let ?d2 = "\<lparr>history = [\<lparr>attempt_no = 1, issued_at = t0, attempt_response = respond 1\<rparr>,
                 \<lparr>attempt_no = 2, issued_at = t0 + backoff_delay pol 1,
                  attempt_response = respond 2\<rparr>],
      attempts = 2, response_status = respond 2, delivered = False,
      permanently_failed = False\<rparr>"
  from a have run: "deliver pol active respond t0 =
      dispatch pol active respond (max_attempts pol - 2) 3
        (t0 + backoff_delay pol 1 + backoff_delay pol 2) ?d2"
    by (simp add: deliver_def dispatch_step numeral_2_eq_2 [symmetric])
  from a have "\<not> active 3" by simp
  note third = dispatch_inactive [of active 3 pol respond "max_attempts pol - 2"
      "t0 + backoff_delay pol 1 + backoff_delay pol 2" ?d2, OF this]
  show "map attempt_no (history (deliver pol active respond t0)) = [1, 2]"
    using third by (simp add: run)
  show "attempts (deliver pol active respond t0) = 2"
    using third by (simp add: run)
  show "\<not> delivered (deliver pol active respond t0)"
    using third by (simp add: run)
qed

text \<open>
  C10, instances: a policy of five attempts with base 2 issues the four attempts at times
  100, 102, 106 and 114; deactivation before attempt 3 leaves two recorded attempts.
\<close>

theorem outbound_retry_delivery_witness:
  "4 \<le> max_attempts ex_policy \<and> ex_endpoint 3 = Some 500 \<and> ex_endpoint 4 = Some 200 \<and>
   delivered (deliver ex_policy (\<lambda>k. True) ex_endpoint 100) \<and>
   map issued_at (history (deliver ex_policy (\<lambda>k. True) ex_endpoint 100)) = [100, 102, 106, 114] \<and>
   \<not> is_2xx (ex_endpoint 2) \<and>
   map attempt_no (history (deliver ex_policy (\<lambda>k. k < 3) ex_endpoint 100)) = [1, 2] \<and>
   \<not> delivered (deliver ex_policy (\<lambda>k. k < 3) ex_endpoint 100)"
  using outbound_retry_delivery [of ex_policy "\<lambda>k. True" ex_endpoint 100]
    outbound_retry_delivery [of ex_policy "\<lambda>k. k < 3" ex_endpoint 100]
  by (simp add: ex_policy_def ex_endpoint_def is_2xx_def backoff_delay_def)

end
